theory Spec2Isabelle
  imports Main "HOL-Library.Word"
begin

unbundle bit_operations_syntax

section \<open>The ST7735 TFT driver (stmhal/ST7735.c)\<close>

text \<open>
  The driver talks to the display controller through three GPIO lines (chip select,
  data/command select, reset), a blocking one-byte SPI transmit and a millisecond delay.
  None of these returns anything the driver looks at, so every procedure of the driver is
  embedded as a function that returns the list of the hardware events it causes, in order;
  a procedure that also assigns fields of the display object returns the new object too.

  C \<open>int\<close> values are modelled as \<open>int\<close> (signed overflow is undefined in C and is not
  modelled), \<open>uint\<close> values as \<open>nat\<close> with the reduction modulo \<open>2 ^ 32\<close> written where the
  source computes with them, and \<open>byte\<close> values as \<open>8 word\<close>.
\<close>

type_synonym byte = "8 word"

datatype event =
    CS bool      \<comment> \<open>\<open>GPIO_set_pin\<close> (\<open>True\<close>) or \<open>GPIO_clear_pin\<close> (\<open>False\<close>) on \<open>pin_cs\<close>\<close>
  | DC bool      \<comment> \<open>the same on \<open>pin_dc\<close>\<close>
  | RST bool     \<comment> \<open>the same on \<open>pin_rst\<close>\<close>
  | Tx byte      \<comment> \<open>\<open>HAL_SPI_Transmit\<close> of one byte\<close>
  | Delay nat    \<comment> \<open>\<open>HAL_Delay\<close>, in milliseconds\<close>

subsection \<open>Constants\<close>

definition ST_SWRESET :: byte where "ST_SWRESET = 0x01"
definition ST_SLPOUT :: byte where "ST_SLPOUT = 0x11"
definition ST_NORON :: byte where "ST_NORON = 0x13"
definition ST_INVOFF :: byte where "ST_INVOFF = 0x20"
definition ST_INVON :: byte where "ST_INVON = 0x21"
definition ST_DISPOFF :: byte where "ST_DISPOFF = 0x28"
definition ST_DISPON :: byte where "ST_DISPON = 0x29"
definition ST_CASET :: byte where "ST_CASET = 0x2A"
definition ST_RASET :: byte where "ST_RASET = 0x2B"
definition ST_RAMWR :: byte where "ST_RAMWR = 0x2C"
definition ST_COLMOD :: byte where "ST_COLMOD = 0x3A"
definition ST_MADCTL :: byte where "ST_MADCTL = 0x36"
definition ST_FRMCTR1 :: byte where "ST_FRMCTR1 = 0xB1"
definition ST_FRMCTR2 :: byte where "ST_FRMCTR2 = 0xB2"
definition ST_FRMCTR3 :: byte where "ST_FRMCTR3 = 0xB3"
definition ST_INVCTR :: byte where "ST_INVCTR = 0xB4"
definition ST_DISSET5 :: byte where "ST_DISSET5 = 0xB6"
definition ST_PWCTR1 :: byte where "ST_PWCTR1 = 0xC0"
definition ST_PWCTR2 :: byte where "ST_PWCTR2 = 0xC1"
definition ST_PWCTR3 :: byte where "ST_PWCTR3 = 0xC2"
definition ST_PWCTR4 :: byte where "ST_PWCTR4 = 0xC3"
definition ST_PWCTR5 :: byte where "ST_PWCTR5 = 0xC4"
definition ST_VMCTR1 :: byte where "ST_VMCTR1 = 0xC5"
definition ST_PWCTR6 :: byte where "ST_PWCTR6 = 0xFC"
definition ST_GMCTRP1 :: byte where "ST_GMCTRP1 = 0xE0"
definition ST_GMCTRN1 :: byte where "ST_GMCTRN1 = 0xE1"

definition TFTRotations :: "byte list" where
  "TFTRotations = [0x00, 0x60, 0xC0, 0xA0]"

definition TFTBGR :: byte where "TFTBGR = 0x08"
definition TFTRGB :: byte where "TFTRGB = 0x00"

subsection \<open>The display object\<close>

datatype spi_handle = SPIHandle1 | SPIHandle2

datatype pin = pin_A4 | pin_B1 | board_pin string

text \<open>
  \<open>struct _pyb_tft_obj_t\<close>. The array \<open>int size[2]\<close> is the two fields \<open>size0\<close> (width) and
  \<open>size1\<close> (height).
\<close>

record pyb_tft_obj_t =
  spi :: spi_handle
  pin_cs :: pin
  pin_rst :: pin
  pin_dc :: pin
  size0 :: int
  size1 :: int
  rotate :: nat
  rgb :: nat

subsection \<open>Bus protocol\<close>

text \<open>\<open>_reset\<close>: the hardware reset pulse.\<close>

definition reset :: "event list" where
  "reset = [DC False, RST True, Delay 500, RST False, Delay 500, RST True]"

text \<open>\<open>_writecommand\<close>\<close>

definition writecommand :: "byte \<Rightarrow> event list" where
  "writecommand command = [CS False, DC False, Tx command, CS True]"

text \<open>
  \<open>_writedata\<close>: the first \<open>count\<close> bytes of the buffer, one transmit per byte. Every call
  in the driver passes a buffer of at least \<open>count\<close> bytes.
\<close>

definition writedata :: "byte list \<Rightarrow> nat \<Rightarrow> event list" where
  "writedata data_in count = [CS False, DC True] @ map Tx (take count data_in) @ [CS True]"

text \<open>\<open>_setMADCTL\<close>: \<open>self->rgb ? TFTRGB : TFTBGR\<close> or-ed to the rotation's table entry.\<close>

definition setMADCTL :: "pyb_tft_obj_t \<Rightarrow> event list" where
  "setMADCTL self =
     writecommand ST_MADCTL @
     (let rgb = (if rgb self \<noteq> 0 then TFTRGB else TFTBGR);
          data = (TFTRotations ! rotate self) OR rgb
      in writedata [data] 1)"

text \<open>\<open>_setwindowloc\<close>: its four parameters have type \<open>byte\<close>.\<close>

definition setwindowloc :: "byte \<Rightarrow> byte \<Rightarrow> byte \<Rightarrow> byte \<Rightarrow> event list" where
  "setwindowloc sx sy ex ey =
     (let dataA = [0, sx, 0, ex] in
      writecommand ST_CASET @ writedata dataA 4 @
      (let dataA = dataA[1 := sy, 3 := ey] in
       writecommand ST_RASET @ writedata dataA 4 @
       writecommand ST_RAMWR))"

text \<open>Passing an \<open>int\<close> where a \<open>byte\<close> is expected keeps its low eight bits.\<close>

definition to_byte :: "int \<Rightarrow> byte" where
  "to_byte v = word_of_int v"

text \<open>\<open>_clamp\<close>\<close>

definition clamp :: "int \<Rightarrow> int \<Rightarrow> int \<Rightarrow> int" where
  "clamp min' max' v = (if v < min' then min' else if v > max' then max' else v)"

text \<open>\<open>_pixel\<close>: \<open>colorA\<close> is the two-byte color array.\<close>

definition pixel :: "pyb_tft_obj_t \<Rightarrow> int \<Rightarrow> int \<Rightarrow> byte list \<Rightarrow> event list" where
  "pixel self x y colorA =
     (if 0 \<le> x \<and> x < size0 self \<and> 0 \<le> y \<and> y < size1 self
      then setwindowloc (to_byte x) (to_byte y) (to_byte (x + 1)) (to_byte (y + 1)) @
           writedata colorA 2
      else [])"

text \<open>
  The initialiser \<open>{ color >> 8, color }\<close> of a two-byte array, which \<open>_draw\<close>, \<open>text\<close>,
  \<open>pixel\<close>, \<open>line\<close> and \<open>circle\<close> all use.
\<close>

definition color_bytes :: "int \<Rightarrow> byte list" where
  "color_bytes color = [to_byte (drop_bit 8 color), to_byte color]"

text \<open>
  \<open>_draw\<close>: the loop \<open>for (int i = 0; i < numPixels; ++i)\<close> runs \<open>numPixels\<close> times, and not at
  all when \<open>numPixels\<close> is negative.
\<close>

definition draw :: "int \<Rightarrow> int \<Rightarrow> event list" where
  "draw numPixels color =
     (let colorA = color_bytes color in
      [CS False, DC True] @
      concat (replicate (nat numPixels) [Tx (colorA ! 0), Tx (colorA ! 1)]) @
      [CS True])"

subsection \<open>Colors\<close>

text \<open>The macro \<open>TFT_COLOR\<close> and the class method \<open>color(r, g, b)\<close>.\<close>

definition TFT_COLOR :: "int \<Rightarrow> int \<Rightarrow> int \<Rightarrow> int" where
  "TFT_COLOR r g b = (push_bit 8 (r AND 0xF8) OR push_bit 3 (g AND 0xFC)) OR drop_bit 3 b"

definition tft_color :: "int \<Rightarrow> int \<Rightarrow> int \<Rightarrow> int" where
  "tft_color r g b = TFT_COLOR r g b"

subsection \<open>Construction, color order and rotation\<close>

datatype error = ValueError string

text \<open>
  \<open>pyb_tft_make_new\<close>. The fields \<open>size\<close>, \<open>rotate\<close> and \<open>rgb\<close> are assigned first; then the
  position string selects the SPI bus and the chip-select pin, and the two pin names are
  looked up, each failure raising \<open>ValueError\<close>. The board's pin table is not part of the
  file, so the lookup \<open>pin_find_named_pin\<close> is a parameter. The SPI and GPIO set-up that
  follows assigns no field of the object and is left out.
\<close>

definition quoted :: "string \<Rightarrow> string" where
  "quoted s = CHR 0x27 # s @ [CHR 0x27]"

definition pyb_tft_make_new ::
  "(string \<Rightarrow> pin option) \<Rightarrow> string \<Rightarrow> string \<Rightarrow> string \<Rightarrow> error + pyb_tft_obj_t" where
  "pyb_tft_make_new pin_find_named_pin tft_id dc rst =
     (let bus =
        (case tft_id of
           [c] \<Rightarrow> if (of_char c :: nat) OR 0x20 = of_char (CHR ''x'') then Some (SPIHandle1, pin_A4)
                  else if (of_char c :: nat) OR 0x20 = of_char (CHR ''y'') then Some (SPIHandle2, pin_B1)
                  else None
         | _ \<Rightarrow> None)
      in case bus of
           None \<Rightarrow> Inl (ValueError (''SPI bus '' @ quoted tft_id @ '' does not exist''))
         | Some (spi', cs) \<Rightarrow>
             (case pin_find_named_pin dc of
                None \<Rightarrow> Inl (ValueError (''dc pin '' @ quoted dc @ '' does not exist''))
              | Some pdc \<Rightarrow>
                  (case pin_find_named_pin rst of
                     None \<Rightarrow> Inl (ValueError (''reset pin '' @ quoted rst @ '' does not exist''))
                   | Some prst \<Rightarrow>
                       Inr \<lparr> spi = spi', pin_cs = cs, pin_rst = prst, pin_dc = pdc,
                             size0 = 128, size1 = 160, rotate = 0, rgb = 1 \<rparr>)))"

text \<open>
  \<open>pyb_tft_rgb\<close>: the argument is the truth value of the Python object; the register is
  written only when the flag changes.
\<close>

definition pyb_tft_rgb :: "pyb_tft_obj_t \<Rightarrow> bool \<Rightarrow> pyb_tft_obj_t \<times> event list" where
  "pyb_tft_rgb self v =
     (let rgb' = (if v then 1 else 0 :: nat) in
      if rgb' \<noteq> rgb self
      then (let self = self\<lparr>rgb := rgb'\<rparr> in (self, setMADCTL self))
      else (self, []))"

text \<open>\<open>pyb_tft_rotation\<close>\<close>

definition pyb_tft_rotation :: "pyb_tft_obj_t \<Rightarrow> int \<Rightarrow> pyb_tft_obj_t \<times> event list" where
  "pyb_tft_rotation self rotation_in =
     (let rotate' = rotation_in AND 0x03;
          rotchange = int (rotate self) XOR rotate';
          self = self\<lparr>rotate := nat rotate'\<rparr>;
          self = (if rotchange AND 1 \<noteq> 0
                  then (let x = size0 self in self\<lparr>size0 := size1 self, size1 := x\<rparr>)
                  else self)
      in (self, setMADCTL self))"

subsection \<open>Rasterization\<close>

text \<open>
  The drawing methods take the position and the size as pairs, the length and the color as
  integers, as they are after \<open>mp_obj_tuple_get\<close> and \<open>mp_obj_get_int\<close>.
\<close>

text \<open>\<open>pyb_tft_pixel\<close>\<close>

definition pyb_tft_pixel :: "pyb_tft_obj_t \<Rightarrow> int \<times> int \<Rightarrow> int \<Rightarrow> event list" where
  "pyb_tft_pixel self pos color =
     (let px = fst pos; py = snd pos; colorA = color_bytes color
      in pixel self px py colorA)"

text \<open>\<open>pyb_tft_vline\<close>\<close>

definition pyb_tft_vline :: "pyb_tft_obj_t \<Rightarrow> int \<times> int \<Rightarrow> int \<Rightarrow> int \<Rightarrow> event list" where
  "pyb_tft_vline self pos len color =
     (let px = fst pos; py = snd pos;
          px = clamp 0 (size0 self) px;
          py = clamp 0 (size1 self) py;
          ey = clamp 0 (size1 self) (py + len);
          (py, ey) = (if ey < py then (ey, py) else (py, ey))
      in setwindowloc (to_byte px) (to_byte py) (to_byte px) (to_byte ey) @
         draw len color)"

text \<open>\<open>pyb_tft_hline\<close>\<close>

definition pyb_tft_hline :: "pyb_tft_obj_t \<Rightarrow> int \<times> int \<Rightarrow> int \<Rightarrow> int \<Rightarrow> event list" where
  "pyb_tft_hline self pos len color =
     (let px = fst pos; py = snd pos;
          px = clamp 0 (size0 self) px;
          py = clamp 0 (size1 self) py;
          ex = clamp 0 (size0 self) (px + len);
          (px, ex) = (if ex < px then (ex, px) else (px, ex))
      in setwindowloc (to_byte px) (to_byte py) (to_byte ex) (to_byte py) @
         draw len color)"

text \<open>
  The two loops of the Bresenham branch of \<open>pyb_tft_line\<close>. Each runs until the coordinate
  of the major axis equals its end value, and need not return for arbitrary arguments; the
  events are collected in \<open>out\<close>.
\<close>

partial_function (option) line_loop_x ::
  "pyb_tft_obj_t \<Rightarrow> byte list \<Rightarrow> int \<Rightarrow> int \<Rightarrow> int \<Rightarrow> int \<Rightarrow> int \<Rightarrow>
   int \<Rightarrow> int \<Rightarrow> int \<Rightarrow> event list \<Rightarrow> event list option" where
  "line_loop_x self colorA ex inx iny dx dy px py e out =
     (if px \<noteq> ex
      then line_loop_x self colorA ex inx iny dx dy
             (px + inx)
             (if e \<ge> 0 then py + iny else py)
             ((if e \<ge> 0 then e - dx else e) + dy)
             (out @ pixel self px py colorA)
      else Some out)"

partial_function (option) line_loop_y ::
  "pyb_tft_obj_t \<Rightarrow> byte list \<Rightarrow> int \<Rightarrow> int \<Rightarrow> int \<Rightarrow> int \<Rightarrow> int \<Rightarrow>
   int \<Rightarrow> int \<Rightarrow> int \<Rightarrow> event list \<Rightarrow> event list option" where
  "line_loop_y self colorA ey inx iny dx dy px py e out =
     (if py \<noteq> ey
      then line_loop_y self colorA ey inx iny dx dy
             (if e \<ge> 0 then px + inx else px)
             (py + iny)
             ((if e \<ge> 0 then e - dy else e) + dx)
             (out @ pixel self px py colorA)
      else Some out)"

text \<open>\<open>pyb_tft_line\<close>: \<open>None\<close> stands for a loop that does not return.\<close>

definition pyb_tft_line ::
  "pyb_tft_obj_t \<Rightarrow> int \<times> int \<Rightarrow> int \<times> int \<Rightarrow> int \<Rightarrow> event list option" where
  "pyb_tft_line self start end' color =
     (let px = fst start; py = snd start; ex = fst end'; ey = snd end' in
      if px = ex then
        (let len = ey - py in
         if len < 0 then Some (pyb_tft_vline self end' (- len + 1) color)
         else Some (pyb_tft_vline self start (len + 1) color))
      else if py = ey then
        (let len = ex - px in
         if len < 0 then Some (pyb_tft_hline self end' (- len + 1) color)
         else Some (pyb_tft_hline self start (len + 1) color))
      else
        (let colorA = color_bytes color;
             dx = ex - px;
             dy = ey - py;
             inx = (if dx > 0 then 1 else - 1);
             iny = (if dy > 0 then 1 else - 1);
             dx = (if dx \<ge> 0 then dx else - dx);
             dy = (if dy \<ge> 0 then dy else - dy)
         in if dx \<ge> dy
            then (let dy = push_bit 1 dy; e = dy - dx; dx = push_bit 1 dx
                  in line_loop_x self colorA ex inx iny dx dy px py e [])
            else (let dx = push_bit 1 dx; e = dx - dy; dy = push_bit 1 dy
                  in line_loop_y self colorA ey inx iny dx dy px py e [])))"

text \<open>\<open>pyb_tft_rect\<close>\<close>

definition pyb_tft_rect :: "pyb_tft_obj_t \<Rightarrow> int \<times> int \<Rightarrow> int \<times> int \<Rightarrow> int \<Rightarrow> event list" where
  "pyb_tft_rect self pos sz color =
     (let px = fst pos; py = snd pos; sx = fst sz; sy = snd sz;
          right = (px + sx - 1, snd pos);
          bottom = (fst pos, py + sy - 1)
      in pyb_tft_hline self bottom (fst sz) color @
         pyb_tft_hline self pos (fst sz) color @
         pyb_tft_vline self pos (snd sz) color @
         pyb_tft_vline self right (snd sz) color)"

text \<open>\<open>pyb_tft_fillrect\<close>\<close>

definition pyb_tft_fillrect ::
  "pyb_tft_obj_t \<Rightarrow> int \<times> int \<Rightarrow> int \<times> int \<Rightarrow> int \<Rightarrow> event list" where
  "pyb_tft_fillrect self pos sz color =
     (let px = fst pos; py = snd pos; sx = fst sz; sy = snd sz;
          px = clamp 0 (size0 self) px;
          py = clamp 0 (size1 self) py;
          ex = clamp 0 (size0 self) (px + sx - 1);
          ey = clamp 0 (size1 self) (py + sy - 1);
          (px, ex) = (if ex < px then (ex, px) else (px, ex));
          (py, ey) = (if ey < py then (ey, py) else (py, ey));
          numPixels = ((ex - px) + 1) * ((ey - py) + 1)
      in setwindowloc (to_byte px) (to_byte py) (to_byte ex) (to_byte ey) @
         draw numPixels color)"

text \<open>\<open>pyb_tft_fill\<close>: the color is 0 when the argument is absent.\<close>

definition pyb_tft_fill :: "pyb_tft_obj_t \<Rightarrow> int option \<Rightarrow> event list" where
  "pyb_tft_fill self color_arg =
     (let color = (case color_arg of Some c \<Rightarrow> c | None \<Rightarrow> 0);
          numPixels = size0 self * size1 self
      in setwindowloc 0 0 (to_byte (size0 self - 1)) (to_byte (size1 self - 1)) @
         draw numPixels color)"

subsection \<open>Text\<close>

text \<open>
  \<open>struct _tft_font_data\<close>. The field \<open>data\<close> points into memory that the driver reads
  without a bound, so it is the function from an offset to the byte found there.
\<close>

record tft_font_data =
  font_width :: nat
  font_height :: nat
  font_start :: nat
  font_end :: nat
  font_data :: "nat \<Rightarrow> byte"

text \<open>
  \<open>DefaultFont\<close>; the table \<open>font_petme128_8x8\<close> is declared \<open>extern\<close> and is a parameter.
\<close>

definition DefaultFont :: "(nat \<Rightarrow> byte) \<Rightarrow> tft_font_data" where
  "DefaultFont font_petme128_8x8 =
     \<lparr> font_width = 8, font_height = 8, font_start = 32, font_end = 127,
       font_data = font_petme128_8x8 \<rparr>"

text \<open>Conversions between \<open>int\<close> and \<open>uint\<close>, both 32 bits wide.\<close>

definition to_uint :: "int \<Rightarrow> nat" where
  "to_uint v = nat (v mod 2 ^ 32)"

definition to_int :: "nat \<Rightarrow> int" where
  "to_int u = (if u mod 2 ^ 32 < 2 ^ 31 then int (u mod 2 ^ 32) else int (u mod 2 ^ 32) - 2 ^ 32)"

text \<open>
  The loop over the rows of one glyph column in the unscaled branch of \<open>_drawchar\<close>; the
  first numeric argument counts the iterations that remain.
\<close>

fun drawchar_rows ::
  "pyb_tft_obj_t \<Rightarrow> byte list \<Rightarrow> int \<Rightarrow> nat \<Rightarrow> int \<Rightarrow> byte \<Rightarrow> event list" where
  "drawchar_rows self colorA x 0 cy c = []"
| "drawchar_rows self colorA x (Suc n) cy c =
     (if c AND 0x01 \<noteq> 0 then pixel self x cy colorA else []) @
     drawchar_rows self colorA x n (cy + 1) (drop_bit 1 c)"

text \<open>The loop over the columns of the glyph, unscaled; \<open>charA\<close> is the offset read next.\<close>

fun drawchar_cols ::
  "pyb_tft_obj_t \<Rightarrow> byte list \<Rightarrow> tft_font_data \<Rightarrow> int \<Rightarrow> nat \<Rightarrow> nat \<Rightarrow> int \<Rightarrow> event list" where
  "drawchar_cols self colorA font y 0 charA x = []"
| "drawchar_cols self colorA font y (Suc n) charA x =
     (let c = font_data font charA; cy = y
      in drawchar_rows self colorA x (font_height font) cy c) @
     drawchar_cols self colorA font y n (charA + 1) (x + 1)"

text \<open>The same two loops in the scaled branch: one window and \<open>numPixels\<close> colors per set bit.\<close>

fun drawchar_rows_scaled ::
  "byte list \<Rightarrow> int \<Rightarrow> int \<Rightarrow> nat \<Rightarrow> int \<Rightarrow> nat \<Rightarrow> int \<Rightarrow> byte \<Rightarrow> event list" where
  "drawchar_rows_scaled colorA sx sy numPixels x 0 cy c = []"
| "drawchar_rows_scaled colorA sx sy numPixels x (Suc n) cy c =
     (if c AND 0x01 \<noteq> 0
      then setwindowloc (to_byte x) (to_byte cy) (to_byte (x + sx - 1)) (to_byte (cy + sy - 1)) @
           [CS False, DC True] @
           concat (replicate numPixels [Tx (colorA ! 0), Tx (colorA ! 1)]) @
           [CS True]
      else []) @
     drawchar_rows_scaled colorA sx sy numPixels x n (cy + sy) (drop_bit 1 c)"

fun drawchar_cols_scaled ::
  "byte list \<Rightarrow> tft_font_data \<Rightarrow> int \<Rightarrow> int \<Rightarrow> nat \<Rightarrow> int \<Rightarrow> nat \<Rightarrow> nat \<Rightarrow> int \<Rightarrow> event list" where
  "drawchar_cols_scaled colorA font sx sy numPixels y 0 charA x = []"
| "drawchar_cols_scaled colorA font sx sy numPixels y (Suc n) charA x =
     (let c = font_data font charA; cy = y
      in drawchar_rows_scaled colorA sx sy numPixels x (font_height font) cy c) @
     drawchar_cols_scaled colorA font sx sy numPixels y n (charA + 1) (x + sx)"

text \<open>\<open>_drawchar\<close>: \<open>ci\<close> is a \<open>uint\<close>, \<open>sx\<close> and \<open>sy\<close> are \<open>int\<close>.\<close>

definition drawchar ::
  "pyb_tft_obj_t \<Rightarrow> int \<Rightarrow> int \<Rightarrow> nat \<Rightarrow> byte list \<Rightarrow> tft_font_data \<Rightarrow> int \<Rightarrow> int \<Rightarrow> event list" where
  "drawchar self x y ci colorA font sx sy =
     (if font_start font \<le> ci \<and> ci \<le> font_end font
      then (let ci = ((ci - font_start font) * font_width font) mod 2 ^ 32;
                charA = ci
            in if sx \<le> 1 \<and> sy \<le> 1
               then drawchar_cols self colorA font y (font_width font) charA x
               else (let numPixels = to_uint (sx * sy)
                     in drawchar_cols_scaled colorA font sx sy numPixels y
                          (font_width font) charA x))
      else [])"

text \<open>
  The cursor update at the end of the body of the loop of \<open>pyb_tft_text\<close>: \<open>px\<close> and \<open>y\<close> are
  \<open>int\<close>, \<open>width\<close> and \<open>height\<close> are \<open>uint\<close>, so the sums and the first comparison are
  unsigned. \<open>None\<close> is the \<open>break\<close>.
\<close>

definition text_advance ::
  "pyb_tft_obj_t \<Rightarrow> int \<Rightarrow> nat \<Rightarrow> nat \<Rightarrow> int \<times> int \<Rightarrow> (int \<times> int) option" where
  "text_advance self x width height cur =
     (let px = fst cur; y = snd cur;
          px = to_int ((to_uint px + width) mod 2 ^ 32)
      in if (to_uint px + width) mod 2 ^ 32 > to_uint (size0 self)
         then (let y = to_int ((to_uint y + height) mod 2 ^ 32)
               in if y > size1 self then None else Some (x, y))
         else Some (px, y))"

text \<open>
  The loop of \<open>pyb_tft_text\<close> over the bytes of the string. The file is part of the port to
  ARM, where plain \<open>char\<close> is unsigned, so a byte reaches \<open>_drawchar\<close> as its value.
\<close>

fun text_loop ::
  "pyb_tft_obj_t \<Rightarrow> byte list \<Rightarrow> tft_font_data \<Rightarrow> nat \<Rightarrow> nat \<Rightarrow> int \<Rightarrow> nat \<Rightarrow> nat \<Rightarrow>
   int \<times> int \<Rightarrow> byte list \<Rightarrow> event list" where
  "text_loop self colorA font sx sy x width height cur [] = []"
| "text_loop self colorA font sx sy x width height cur (ch # rest) =
     drawchar self (fst cur) (snd cur) (unat ch) colorA font (to_int sx) (to_int sy) @
     (case text_advance self x width height cur of
        None \<Rightarrow> []
      | Some cur' \<Rightarrow> text_loop self colorA font sx sy x width height cur' rest)"

text \<open>
  \<open>pyb_tft_text\<close>: \<open>font_arg\<close> is the font read from the dictionary when one with all five
  keys was passed, \<open>size_arg\<close> the two scale factors when a size was passed.
\<close>

definition pyb_tft_text ::
  "tft_font_data \<Rightarrow> pyb_tft_obj_t \<Rightarrow> int \<times> int \<Rightarrow> byte list \<Rightarrow> int \<Rightarrow>
   tft_font_data option \<Rightarrow> (int \<times> int) option \<Rightarrow> event list" where
  "pyb_tft_text default_font self pos data color font_arg size_arg =
     (let x = fst pos; y = snd pos;
          colorA = color_bytes color;
          sx = (case size_arg of Some s \<Rightarrow> to_uint (fst s) | None \<Rightarrow> 1);
          sy = (case size_arg of Some s \<Rightarrow> to_uint (snd s) | None \<Rightarrow> 1);
          font = (case font_arg of Some f \<Rightarrow> f | None \<Rightarrow> default_font);
          px = x;
          width = (font_width font * sx) mod 2 ^ 32;
          height = (font_height font * sy + 1) mod 2 ^ 32
      in text_loop self colorA font sx sy x width height (px, y) data)"

subsection \<open>Panel initialization\<close>

text \<open>
  The three initialization methods assign no field of the object; each is embedded as a
  function to the object it leaves and the events it causes. The local array \<open>dataA\<close> is
  overwritten in place between the writes, as in the source; where the source assigns to
  it between a command and the data of that command, the assignment is written before
  the command, which does not read the array.
\<close>

text \<open>\<open>pyb_tft_initr\<close> (red tab)\<close>

definition pyb_tft_initr :: "pyb_tft_obj_t \<Rightarrow> pyb_tft_obj_t \<times> event list" where
  "pyb_tft_initr self =
     (let t = reset;
          t = t @ writecommand ST_SWRESET @ [Delay 150];
          t = t @ writecommand ST_SLPOUT @ [Delay 500];
          dataA = [0x01, 0x2c, 0x2d, 0x01, 0x2c, 0x2d];
          t = t @ writecommand ST_FRMCTR1 @ writedata dataA 3;
          t = t @ writecommand ST_FRMCTR2 @ writedata dataA 3;
          t = t @ writecommand ST_FRMCTR3 @ writedata dataA 6 @ [Delay 10];
          dataA = dataA[0 := 0x07];
          t = t @ writecommand ST_INVCTR @ writedata dataA 1;
          dataA = dataA[0 := 0xA2, 1 := 0x02, 2 := 0x84];
          t = t @ writecommand ST_PWCTR1 @ writedata dataA 3;
          dataA = dataA[0 := 0xC5];
          t = t @ writecommand ST_PWCTR2 @ writedata dataA 1;
          dataA = dataA[0 := 0x0A, 1 := 0x00];
          t = t @ writecommand ST_PWCTR3 @ writedata dataA 2;
          dataA = dataA[0 := 0x8A, 1 := 0x2A];
          t = t @ writecommand ST_PWCTR4 @ writedata dataA 2;
          dataA = dataA[0 := 0x8A, 1 := 0xEE];
          t = t @ writecommand ST_PWCTR5 @ writedata dataA 2;
          dataA = dataA[0 := 0x0E];
          t = t @ writecommand ST_VMCTR1 @ writedata dataA 1;
          t = t @ writecommand ST_INVOFF;
          t = t @ setMADCTL self;
          dataA = dataA[0 := 0x05];
          t = t @ writecommand ST_COLMOD @ writedata dataA 1;
          dataA = dataA[0 := 0x00, 1 := 0x00, 2 := 0x00, 3 := to_byte (size0 self - 1)];
          t = t @ writecommand ST_CASET @ writedata dataA 4;
          dataA = dataA[3 := to_byte (size1 self - 1)];
          t = t @ writecommand ST_RASET @ writedata dataA 4;
          dataGMCTRP = [0x0f, 0x1a, 0x0f, 0x18, 0x2f, 0x28, 0x20, 0x22, 0x1f,
                        0x1b, 0x23, 0x37, 0x00, 0x07, 0x02, 0x10];
          t = t @ writecommand ST_GMCTRP1 @ writedata dataGMCTRP 16;
          dataGMCTRN = [0x0f, 0x1b, 0x0f, 0x17, 0x33, 0x2c, 0x29, 0x2e, 0x30,
                        0x30, 0x39, 0x3f, 0x00, 0x07, 0x03, 0x10];
          t = t @ writecommand ST_GMCTRN1 @ writedata dataGMCTRN 16 @ [Delay 10];
          t = t @ writecommand ST_NORON @ [Delay 10];
          t = t @ writecommand ST_DISPON @ [CS True, Delay 100]
      in (self, t))"

text \<open>\<open>pyb_tft_initg\<close> (green tab)\<close>

definition pyb_tft_initg :: "pyb_tft_obj_t \<Rightarrow> pyb_tft_obj_t \<times> event list" where
  "pyb_tft_initg self =
     (let t = reset;
          t = t @ writecommand ST_SWRESET @ [Delay 150];
          t = t @ writecommand ST_SLPOUT @ [Delay 255];
          dataA = [0x01, 0x2c, 0x2d, 0x01, 0x2c, 0x2d];
          t = t @ writecommand ST_FRMCTR1 @ writedata dataA 3;
          t = t @ writecommand ST_FRMCTR2 @ writedata dataA 3;
          t = t @ writecommand ST_FRMCTR3 @ writedata dataA 6;
          dataA = dataA[0 := 0x07];
          t = t @ writecommand ST_INVCTR @ writedata dataA 1;
          dataA = dataA[0 := 0xA2, 1 := 0x02, 2 := 0x84];
          t = t @ writecommand ST_PWCTR1 @ writedata dataA 3;
          dataA = dataA[0 := 0xC5];
          t = t @ writecommand ST_PWCTR2 @ writedata dataA 1;
          dataA = dataA[0 := 0x0A, 1 := 0x00];
          t = t @ writecommand ST_PWCTR3 @ writedata dataA 2;
          dataA = dataA[0 := 0x8A, 1 := 0x2A];
          t = t @ writecommand ST_PWCTR4 @ writedata dataA 2;
          dataA = dataA[0 := 0x8A, 1 := 0xEE];
          t = t @ writecommand ST_PWCTR5 @ writedata dataA 2;
          dataA = dataA[0 := 0x0E];
          t = t @ writecommand ST_VMCTR1 @ writedata dataA 1;
          t = t @ writecommand ST_INVOFF;
          t = t @ setMADCTL self;
          dataA = dataA[0 := 0x05];
          t = t @ writecommand ST_COLMOD @ writedata dataA 1;
          dataA = dataA[0 := 0x00, 1 := 0x01, 2 := 0x00, 3 := to_byte (size0 self - 1)];
          t = t @ writecommand ST_CASET @ writedata dataA 4;
          dataA = dataA[3 := to_byte (size1 self - 1)];
          t = t @ writecommand ST_RASET @ writedata dataA 4;
          dataGMCTRP = [0x02, 0x1c, 0x07, 0x12, 0x37, 0x32, 0x29, 0x2d, 0x29,
                        0x25, 0x2b, 0x39, 0x00, 0x01, 0x03, 0x10];
          t = t @ writecommand ST_GMCTRP1 @ writedata dataGMCTRP 16;
          dataGMCTRN = [0x03, 0x1d, 0x07, 0x06, 0x2e, 0x2c, 0x29, 0x2d, 0x2e,
                        0x2e, 0x37, 0x3f, 0x00, 0x00, 0x02, 0x10];
          t = t @ writecommand ST_GMCTRN1 @ writedata dataGMCTRN 16;
          t = t @ writecommand ST_NORON @ [Delay 10];
          t = t @ writecommand ST_DISPON @ [CS True, Delay 100]
      in (self, t))"

text \<open>\<open>pyb_tft_initb\<close> (blue tab)\<close>

definition pyb_tft_initb :: "pyb_tft_obj_t \<Rightarrow> pyb_tft_obj_t \<times> event list" where
  "pyb_tft_initb self =
     (let t = reset;
          t = t @ writecommand ST_SWRESET @ [Delay 50];
          t = t @ writecommand ST_SLPOUT @ [Delay 500];
          dataA = [0x05, 0x06, 0x03, 0x00];
          t = t @ writecommand ST_COLMOD @ writedata dataA 1;
          dataA = dataA[0 := 0x00];
          t = t @ writecommand ST_FRMCTR1 @ writedata dataA 3 @ [Delay 10];
          t = t @ setMADCTL self;
          dataA = dataA[0 := 0x15, 1 := 0x02];
          t = t @ writecommand ST_DISSET5 @ writedata dataA 2;
          dataA = dataA[0 := 0x00];
          t = t @ writecommand ST_INVCTR @ writedata dataA 1;
          dataA = dataA[0 := 0x02, 1 := 0x70];
          t = t @ writecommand ST_PWCTR1 @ writedata dataA 2;
          dataA = dataA[0 := 0x05];
          t = t @ writecommand ST_PWCTR2 @ writedata dataA 1;
          dataA = dataA[0 := 0x01, 1 := 0x02];
          t = t @ writecommand ST_PWCTR3 @ writedata dataA 2;
          dataA = dataA[0 := 0x3C, 1 := 0x38];
          t = t @ writecommand ST_VMCTR1 @ writedata dataA 2;
          dataA = dataA[0 := 0x11, 1 := 0x15];
          t = t @ writecommand ST_PWCTR6 @ writedata dataA 2;
          dataGMCTRP = [0x02, 0x1c, 0x07, 0x12, 0x37, 0x32, 0x29, 0x2d, 0x29,
                        0x25, 0x2b, 0x39, 0x00, 0x01, 0x03, 0x10];
          t = t @ writecommand ST_GMCTRP1 @ writedata dataGMCTRP 16;
          dataGMCTRN = [0x03, 0x1d, 0x07, 0x06, 0x2e, 0x2c, 0x29, 0x2d, 0x2e,
                        0x2e, 0x37, 0x3f, 0x00, 0x00, 0x02, 0x10];
          t = t @ writecommand ST_GMCTRN1 @ writedata dataGMCTRN 16 @ [Delay 10];
          dataA = dataA[0 := 0x00, 1 := 0x02, 2 := 0x00, 3 := to_byte (size0 self - 1)];
          t = t @ writecommand ST_CASET @ writedata dataA 4;
          dataA = dataA[2 := 0x01, 3 := to_byte (size1 self - 1)];
          t = t @ writecommand ST_RASET @ writedata dataA 4;
          t = t @ writecommand ST_NORON @ [Delay 10];
          t = t @ writecommand ST_RAMWR @ [Delay 500];
          t = t @ writecommand ST_DISPON @ [CS True, Delay 100]
      in (self, t))"

subsection \<open>The remaining methods\<close>

text \<open>\<open>pyb_tft_command\<close>, \<open>pyb_tft_on\<close>, \<open>pyb_tft_invertcolor\<close> and \<open>pyb_tft_size\<close>.\<close>

definition pyb_tft_command :: "int \<Rightarrow> event list" where
  "pyb_tft_command command = writecommand (to_byte command)"

definition pyb_tft_on :: "bool \<Rightarrow> event list" where
  "pyb_tft_on v = writecommand (if v then ST_DISPON else ST_DISPOFF)"

definition pyb_tft_invertcolor :: "bool \<Rightarrow> event list" where
  "pyb_tft_invertcolor v = writecommand (if v then ST_INVON else ST_INVOFF)"

definition pyb_tft_size :: "pyb_tft_obj_t \<Rightarrow> int \<times> int" where
  "pyb_tft_size self = (size0 self, size1 self)"

text \<open>
  A call of a method of the object, and the object it leaves. Only \<open>rgb\<close> and \<open>rotation\<close>
  assign a field; \<open>circle\<close> and \<open>fillcircle\<close> compute in floating point and are not embedded
  beyond that fact, and the arguments of the methods that leave the object alone are not
  recorded.
\<close>

datatype tft_call =
    Call_command | Call_data | Call_initr | Call_initg | Call_initb
  | Call_invertcolor | Call_on | Call_rgb bool | Call_rotation int | Call_size
  | Call_text | Call_line | Call_vline | Call_hline | Call_fill | Call_rect
  | Call_fillrect | Call_fillcircle | Call_pixel | Call_circle

fun call :: "pyb_tft_obj_t \<Rightarrow> tft_call \<Rightarrow> pyb_tft_obj_t" where
  "call self (Call_rgb v) = fst (pyb_tft_rgb self v)"
| "call self (Call_rotation v) = fst (pyb_tft_rotation self v)"
| "call self Call_initr = fst (pyb_tft_initr self)"
| "call self Call_initg = fst (pyb_tft_initg self)"
| "call self Call_initb = fst (pyb_tft_initb self)"
| "call self _ = self"

definition calls :: "pyb_tft_obj_t \<Rightarrow> tft_call list \<Rightarrow> pyb_tft_obj_t" where
  "calls self cs = foldl call self cs"

subsection \<open>What the controller has received\<close>

text \<open>
  To speak of the state a sequence of events leaves in the controller, the events are read
  the way the controller reads them: a byte transmitted while the data/command line is
  low selects a register and clears its parameters, a byte transmitted while the line is
  high is appended to the parameters of the selected register.
\<close>

record device =
  dev_dc :: bool
  dev_cmd :: "byte option"
  dev_regs :: "byte \<Rightarrow> byte list"

fun dev_event :: "device \<Rightarrow> event \<Rightarrow> device" where
  "dev_event d (DC b) = d\<lparr>dev_dc := b\<rparr>"
| "dev_event d (Tx b) =
     (if dev_dc d
      then (case dev_cmd d of
              None \<Rightarrow> d
            | Some c \<Rightarrow> d\<lparr>dev_regs := (dev_regs d)(c := dev_regs d c @ [b])\<rparr>)
      else d\<lparr>dev_cmd := Some b, dev_regs := (dev_regs d)(b := [])\<rparr>)"
| "dev_event d _ = d"

definition dev_run :: "device \<Rightarrow> event list \<Rightarrow> device" where
  "dev_run d t = foldl dev_event d t"

subsection \<open>The object of the documented example\<close>

text \<open>
  The class documentation constructs the display as \<open>pyb.TFT('X', 'X1', 'X2')\<close>. On a
  board whose pin table knows every name, this is the object that call returns
  (lemma \<open>make_new_doc_tft\<close>).
\<close>

definition doc_tft :: pyb_tft_obj_t where
  "doc_tft = \<lparr> spi = SPIHandle1, pin_cs = pin_A4, pin_rst = board_pin ''X2'',
               pin_dc = board_pin ''X1'', size0 = 128, size1 = 160, rotate = 0, rgb = 1 \<rparr>"


section \<open>Properties\<close>

lemmas ST_defs =
  ST_SWRESET_def ST_SLPOUT_def ST_NORON_def ST_INVOFF_def ST_INVON_def ST_DISPOFF_def
  ST_DISPON_def ST_CASET_def ST_RASET_def ST_RAMWR_def ST_COLMOD_def ST_MADCTL_def
  ST_FRMCTR1_def ST_FRMCTR2_def ST_FRMCTR3_def ST_INVCTR_def ST_DISSET5_def ST_PWCTR1_def
  ST_PWCTR2_def ST_PWCTR3_def ST_PWCTR4_def ST_PWCTR5_def ST_VMCTR1_def ST_PWCTR6_def
  ST_GMCTRP1_def ST_GMCTRN1_def

subsection \<open>Auxiliary facts\<close>

lemma make_new_doc_tft:
  "pyb_tft_make_new (Some \<circ> board_pin) ''X'' ''X1'' ''X2'' = Inr doc_tft"
  by (simp add: pyb_tft_make_new_def doc_tft_def)

lemma doc_tft_simps:
  "size0 doc_tft = 128" "size1 doc_tft = 160" "rotate doc_tft = 0" "rgb doc_tft = 1"
  by (simp_all add: doc_tft_def)

lemma make_new_fields:
  assumes "pyb_tft_make_new pf tft_id dc rst = Inr t"
  shows "size0 t = 128" "size1 t = 160" "rotate t = 0" "rgb t = 1"
  using assms
  by (auto simp add: pyb_tft_make_new_def Let_def
      split: option.splits list.splits if_splits prod.splits)

lemma setwindowloc_events:
  "setwindowloc sx sy ex ey =
     [CS False, DC False, Tx 0x2A, CS True, CS False, DC True, Tx 0, Tx sx, Tx 0, Tx ex, CS True,
      CS False, DC False, Tx 0x2B, CS True, CS False, DC True, Tx 0, Tx sy, Tx 0, Tx ey, CS True,
      CS False, DC False, Tx 0x2C, CS True]"
  by (simp add: setwindowloc_def writecommand_def writedata_def ST_CASET_def ST_RASET_def
      ST_RAMWR_def)

lemma length_draw: "length (draw n c) = 2 * nat n + 3"
  by (simp add: draw_def Let_def length_concat sum_list_replicate)

lemma draw_neq: "nat n \<noteq> nat m \<Longrightarrow> draw n c \<noteq> draw m c"
  using length_draw [of n c] length_draw [of m c] by auto

text \<open>The loops of \<open>pyb_tft_line\<close> return when they step towards the end value.\<close>

lemma line_loop_x_returns:
  "(inx = 1 \<and> px \<le> ex) \<or> (inx = - 1 \<and> ex \<le> px) \<Longrightarrow>
   \<exists>t. line_loop_x self colorA ex inx iny dx dy px py e out = Some t"
proof (induction "nat \<bar>ex - px\<bar>" arbitrary: px py e out)
  case 0
  then have "px = ex" by simp
  then show ?case by (subst line_loop_x.simps) simp
next
  case (Suc n)
  then have ne: "px \<noteq> ex" by auto
  have "\<exists>t. line_loop_x self colorA ex inx iny dx dy (px + inx)
           (if e \<ge> 0 then py + iny else py) ((if e \<ge> 0 then e - dx else e) + dy)
           (out @ pixel self px py colorA) = Some t"
    using Suc.hyps(2) Suc.prems ne by (intro Suc.hyps(1)) auto
  then show ?case using ne by (subst line_loop_x.simps) simp
qed

lemma line_loop_y_returns:
  "(iny = 1 \<and> py \<le> ey) \<or> (iny = - 1 \<and> ey \<le> py) \<Longrightarrow>
   \<exists>t. line_loop_y self colorA ey inx iny dx dy px py e out = Some t"
proof (induction "nat \<bar>ey - py\<bar>" arbitrary: px py e out)
  case 0
  then have "py = ey" by simp
  then show ?case by (subst line_loop_y.simps) simp
next
  case (Suc n)
  then have ne: "py \<noteq> ey" by auto
  have "\<exists>t. line_loop_y self colorA ey inx iny dx dy (if e \<ge> 0 then px + inx else px)
           (py + iny) ((if e \<ge> 0 then e - dy else e) + dx)
           (out @ pixel self px py colorA) = Some t"
    using Suc.hyps(2) Suc.prems ne by (intro Suc.hyps(1)) auto
  then show ?case using ne by (subst line_loop_y.simps) simp
qed

text \<open>So \<open>pyb_tft_line\<close> returns for every pair of end points.\<close>

lemma pyb_tft_line_returns: "\<exists>t. pyb_tft_line self start end' color = Some t"
  unfolding pyb_tft_line_def Let_def
  by (auto intro!: line_loop_x_returns line_loop_y_returns)

lemma and3_less: "(v::int) AND 3 < 4"
  using AND_upper2' [of 3 3 v] by simp

lemma parity_bit: "((a XOR (v AND 3)) AND 1 \<noteq> 0) = (odd v \<noteq> odd (a::int))"
  by (auto simp add: and_one_eq mod2_eq_if even_xor_iff even_and_iff)

lemma even_nat_and3: "even (nat (v AND 3)) = even v"
  by (simp add: even_nat_iff even_and_iff)

lemma rotate_call: "rotate self < 4 \<Longrightarrow> rotate (call self c) < 4"
  using and3_less
  by (cases c)
    (auto simp add: pyb_tft_rotation_def pyb_tft_rgb_def pyb_tft_initr_def pyb_tft_initg_def
      pyb_tft_initb_def Let_def nat_less_iff)

lemma rotate_calls: "rotate self < 4 \<Longrightarrow> rotate (calls self cs) < 4"
  unfolding calls_def
  by (induction cs arbitrary: self) (simp_all add: rotate_call)

lemma dev_run_append: "dev_run d (t @ u) = dev_run (dev_run d t) u"
  by (simp add: dev_run_def)

lemma initr_fst: "fst (pyb_tft_initr self) = self"
  by (simp add: pyb_tft_initr_def Let_def)

lemma initr_device:
  "dev_regs (dev_run d (snd (pyb_tft_initr self))) ST_MADCTL =
     [(TFTRotations ! rotate self) OR (if rgb self \<noteq> 0 then TFTRGB else TFTBGR)]"
  "dev_regs (dev_run d (snd (pyb_tft_initr self))) ST_CASET = [0, 0, 0, to_byte (size0 self - 1)]"
  "dev_regs (dev_run d (snd (pyb_tft_initr self))) ST_RASET = [0, 0, 0, to_byte (size1 self - 1)]"
  by (simp_all add: pyb_tft_initr_def Let_def reset_def writecommand_def writedata_def
      setMADCTL_def ST_defs dev_run_def)

lemma drawchar_outside:
  "ci < font_start font \<or> font_end font < ci \<Longrightarrow> drawchar self x y ci colorA font sx sy = []"
  by (auto simp add: drawchar_def)

lemma text_advance_plain:
  assumes "0 \<le> px" "px + 2 * int width \<le> size0 self" "size0 self < 2 ^ 31"
  shows "text_advance self x width height (px, y) = Some (px + int width, y)"
proof -
  have w: "int width < 2 ^ 31" "0 \<le> int width" using assms by auto
  have a: "to_uint px = nat px" using assms by (simp add: to_uint_def)
  have u: "(nat px + width) mod 2 ^ 32 = nat px + width"
    using assms w by (simp add: nat_less_iff)
  have b: "to_int (nat px + width) = px + int width"
    using assms w by (simp add: to_int_def nat_less_iff)
  have c: "to_uint (px + int width) = nat px + width"
    using assms w by (simp add: to_uint_def nat_add_distrib)
  have d: "to_uint (size0 self) = nat (size0 self)" using assms by (simp add: to_uint_def)
  have e: "(nat px + width + width) mod 2 ^ 32 = nat px + width + width"
    using assms w  by (simp add: nat_less_iff)
  have f: "\<not> nat px + width + width > nat (size0 self)"
    using assms by linarith
  show ?thesis
    unfolding text_advance_def Let_def fst_conv snd_conv a u b c d e
    using f by simp
qed

text \<open>
  \<open>pyb_tft_text\<close> is its loop, run from the position given, with the glyph width
  \<open>font.width * sx\<close> and the line height \<open>font.height * sy + 1\<close>.
\<close>

lemma pyb_tft_text_loop:
  assumes "font = (case font_arg of Some f \<Rightarrow> f | None \<Rightarrow> default_font)"
    and "sx = (case size_arg of Some s \<Rightarrow> to_uint (fst s) | None \<Rightarrow> 1)"
    and "sy = (case size_arg of Some s \<Rightarrow> to_uint (snd s) | None \<Rightarrow> 1)"
  shows "pyb_tft_text default_font self pos data color font_arg size_arg =
    text_loop self (color_bytes color) font sx sy (fst pos)
      ((font_width font * sx) mod 2 ^ 32) ((font_height font * sy + 1) mod 2 ^ 32) pos data"
  unfolding assms by (simp add: pyb_tft_text_def Let_def)

lemma text_loop_single:
  "text_loop self colorA font sx sy x width height cur [c] =
     drawchar self (fst cur) (snd cur) (unat c) colorA font (to_int sx) (to_int sy)"
  by (simp split: option.splits)

lemma text_loop_snoc_outside:
  assumes "unat ch < font_start font \<or> font_end font < unat ch"
  shows "text_loop self colorA font sx sy x width height cur (pre @ [ch]) =
         text_loop self colorA font sx sy x width height cur pre"
proof (induction pre arbitrary: cur)
  case Nil
  show ?case using assms by (simp add: drawchar_outside split: option.splits)
next
  case (Cons p pre)
  show ?case by (simp add: Cons.IH split: option.splits)
qed

lemma text_loop_prefix:
  "\<exists>r. text_loop self colorA font sx sy x width height cur (pre @ data) =
        text_loop self colorA font sx sy x width height cur pre @ r"
proof (induction pre arbitrary: cur)
  case Nil
  show ?case by simp
next
  case (Cons p pre)
  show ?case
  proof (cases "text_advance self x width height cur")
    case None
    then show ?thesis by simp
  next
    case (Some c)
    obtain r where "text_loop self colorA font sx sy x width height c (pre @ data) =
        text_loop self colorA font sx sy x width height c pre @ r"
      using Cons.IH [of c] by blast
    then show ?thesis using Some by simp
  qed
qed

lemma text_loop_rest:
  "text_loop self colorA font sx sy x width height cur (pre @ data) =
     text_loop self colorA font sx sy x width height cur pre @
     drop (length (text_loop self colorA font sx sy x width height cur pre))
       (text_loop self colorA font sx sy x width height cur (pre @ data))"
proof -
  obtain r where r: "text_loop self colorA font sx sy x width height cur (pre @ data) =
        text_loop self colorA font sx sy x width height cur pre @ r"
    using text_loop_prefix by blast
  show ?thesis by (subst (2) r, subst r) simp
qed

lemma text_loop_replace:
  assumes "unat ch < font_start font \<or> font_end font < unat ch"
  shows "text_loop self colorA font sx sy x width height cur (pre @ ch' # rest) =
     text_loop self colorA font sx sy x width height cur (pre @ [ch']) @
     drop (length (text_loop self colorA font sx sy x width height cur pre))
       (text_loop self colorA font sx sy x width height cur (pre @ ch # rest))"
proof (induction pre arbitrary: cur)
  case Nil
  show ?case using assms by (simp add: drawchar_outside split: option.splits)
next
  case (Cons p pre)
  show ?case by (simp add: Cons.IH split: option.splits)
qed


lemma text_loop_step_nowrap:
  assumes "0 \<le> px" "px + int ((1 + length data) * W) \<le> size0 self" "size0 self < 2 ^ 31"
  shows "text_loop self colorA font sx sy x W H (px, y) (c # data) =
     drawchar self px y (unat c) colorA font (to_int sx) (to_int sy) @
     text_loop self colorA font sx sy x W H (px + int W, y) data"
proof (cases data)
  case Nil
  then show ?thesis by (simp split: option.splits)
next
  case (Cons d ds)
  have "int ((1 + length data) * W) = int W + int W + int (length ds * W)"
    using Cons by simp
  then have "px + 2 * int W \<le> size0 self" using assms(2) by linarith
  then have "text_advance self x W H (px, y) = Some (px + int W, y)"
    using assms by (intro text_advance_plain) auto
  then show ?thesis by simp
qed

lemma text_loop_nowrap_column:
  assumes "0 \<le> px" "px + int (length data * W) \<le> size0 self" "size0 self < 2 ^ 31"
  shows "text_loop self colorA font sx sy x W H (px, y) data =
         text_loop self colorA font sx sy x' W H (px, y) data"
  using assms
proof (induction data arbitrary: px)
  case Nil
  show ?case by simp
next
  case (Cons c data)
  have b: "px + int ((1 + length data) * W) \<le> size0 self" using Cons.prems(2) by simp
  have "px + int W + int (length data * W) \<le> size0 self" using b by simp
  then have ih: "text_loop self colorA font sx sy x W H (px + int W, y) data =
         text_loop self colorA font sx sy x' W H (px + int W, y) data"
    using Cons.prems by (intro Cons.IH) auto
  show ?case
    using text_loop_step_nowrap [OF Cons.prems(1) b Cons.prems(3), of colorA font sx sy x H y c]
      text_loop_step_nowrap [OF Cons.prems(1) b Cons.prems(3), of colorA font sx sy x' H y c] ih
    by simp
qed

lemma text_loop_nowrap_append:
  assumes "0 \<le> px" "px + int ((length a + length b) * W) \<le> size0 self" "size0 self < 2 ^ 31"
  shows "text_loop self colorA font sx sy x W H (px, y) (a @ b) =
         text_loop self colorA font sx sy x W H (px, y) a @
         text_loop self colorA font sx sy x' W H (px + int (length a * W), y) b"
  using assms
proof (induction a arbitrary: px)
  case Nil
  then show ?case using text_loop_nowrap_column [of px b W self colorA font sx sy x H y x'] by simp
next
  case (Cons c a)
  have b1: "px + int ((1 + length (a @ b)) * W) \<le> size0 self" using Cons.prems(2) by simp
  have "int ((length (c # a) + length b) * W) = int ((1 + length a) * W) + int (length b * W)"
    by (simp add: algebra_simps)
  then have b2: "px + int ((1 + length a) * W) \<le> size0 self" using Cons.prems(2) by linarith
  have "px + int W + int ((length a + length b) * W) \<le> size0 self"
    using b1 by (simp add: algebra_simps)
  then have ih: "text_loop self colorA font sx sy x W H (px + int W, y) (a @ b) =
         text_loop self colorA font sx sy x W H (px + int W, y) a @
         text_loop self colorA font sx sy x' W H (px + int W + int (length a * W), y) b"
    using Cons.prems by (intro Cons.IH) auto
  have e: "px + int W + int (length a * W) = px + int (length (c # a) * W)"
    by (simp add: algebra_simps)
  show ?case
    using text_loop_step_nowrap [OF Cons.prems(1) b1 Cons.prems(3), of colorA font sx sy x H y c]
      text_loop_step_nowrap [OF Cons.prems(1) b2 Cons.prems(3), of colorA font sx sy x H y c] ih
    unfolding e by simp
qed


lemma pyb_tft_text_nowrap:
  assumes font: "font = (case font_arg of Some f \<Rightarrow> f | None \<Rightarrow> default_font)"
    and sx: "sx = (case size_arg of Some s \<Rightarrow> to_uint (fst s) | None \<Rightarrow> 1)"
    and sy: "sy = (case size_arg of Some s \<Rightarrow> to_uint (snd s) | None \<Rightarrow> 1)"
    and b: "0 \<le> x"
      "x + int ((length pre + 1 + length rest) * (font_width font * sx)) \<le> size0 self"
      "size0 self < 2 ^ 31"
  shows "pyb_tft_text default_font self (x, y) (pre @ c # rest) color font_arg size_arg =
     pyb_tft_text default_font self (x, y) pre color font_arg size_arg @
     drawchar self (x + int (length pre * (font_width font * sx))) y (unat c)
       (color_bytes color) font (to_int sx) (to_int sy) @
     pyb_tft_text default_font self (x + int ((length pre + 1) * (font_width font * sx)), y)
       rest color font_arg size_arg"
proof -
  define W where "W = font_width font * sx"
  define H where "H = (font_height font * sy + 1) mod 2 ^ 32"
  define x2 where "x2 = x + int ((length pre + 1) * W)"
  have bW: "x + int ((length pre + 1 + length rest) * W) \<le> size0 self"
    using b(2) by (simp add: W_def)
  have "int ((length pre + 1 + length rest) * W) =
      int W + int (length pre * W) + int (length rest * W)"
    by (simp add: algebra_simps)
  moreover have "0 \<le> int (length pre * W)" "0 \<le> int (length rest * W)" by simp_all
  ultimately have "int W \<le> size0 self" using b(1) bW by linarith
  then have "int W < 2 ^ 32" using b(3) by simp
  then have m: "W mod 2 ^ 32 = W" by (simp add: nat_less_iff)
  have t: "pyb_tft_text default_font self (u, y) d color font_arg size_arg =
      text_loop self (color_bytes color) font sx sy u W H (u, y) d" for u d
    unfolding pyb_tft_text_loop [OF font sx sy] fst_conv W_def [symmetric] H_def [symmetric] m
    by (rule refl)
  have b1: "x + int ((length pre + length (c # rest)) * W) \<le> size0 self"
    using bW by (simp add: algebra_simps)
  have 1: "text_loop self (color_bytes color) font sx sy x W H (x, y) (pre @ c # rest) =
      text_loop self (color_bytes color) font sx sy x W H (x, y) pre @
      text_loop self (color_bytes color) font sx sy x2 W H (x + int (length pre * W), y) (c # rest)"
    using b(1) b1 b(3) by (rule text_loop_nowrap_append)
  have p0: "0 \<le> x + int (length pre * W)" using b(1) by simp
  have b2: "x + int (length pre * W) + int ((1 + length rest) * W) \<le> size0 self"
    using bW by (simp add: algebra_simps)
  have 2: "text_loop self (color_bytes color) font sx sy x2 W H (x + int (length pre * W), y) (c # rest) =
      drawchar self (x + int (length pre * W)) y (unat c) (color_bytes color) font
        (to_int sx) (to_int sy) @
      text_loop self (color_bytes color) font sx sy x2 W H (x + int (length pre * W) + int W, y) rest"
    using p0 b2 b(3) by (rule text_loop_step_nowrap)
  have e: "x + int (length pre * W) + int W = x2"
    by (simp add: x2_def algebra_simps)
  show ?thesis
    unfolding W_def [symmetric] x2_def [symmetric] t 1 2 e by simp
qed

lemma low5: "0 \<le> r \<Longrightarrow> r \<le> 255 \<Longrightarrow> drop_bit 3 (r::int) AND 31 = drop_bit 3 r"
proof -
  assume a: "0 \<le> r" "r \<le> 255"
  have "take_bit 5 (drop_bit 3 r) = drop_bit 3 r"
    using a by (intro take_bit_int_eq_self) (simp_all add: drop_bit_eq_div)
  then show ?thesis by (simp add: take_bit_eq_mask mask_eq_exp_minus_1)
qed

lemma hi0: "0 \<le> b \<Longrightarrow> b \<le> 255 \<Longrightarrow> drop_bit 14 (b::int) = 0"
  by (simp add: drop_bit_eq_div)

lemma color_bound:
  assumes "0 \<le> r" "r \<le> 255" "0 \<le> g" "g \<le> 255" "0 \<le> b" "b \<le> 255"
  shows "0 \<le> tft_color r g b \<and> tft_color r g b < 2 ^ 16"
proof -
  have r: "r AND 0xF8 \<le> 0xF8" by (rule AND_upper2) simp
  have g: "g AND 0xFC \<le> 0xFC" by (rule AND_upper2) simp
  have 1: "push_bit 8 (r AND 0xF8) < 2 ^ 16" using r by (simp add: push_bit_eq_mult)
  have 2: "push_bit 3 (g AND 0xFC) < 2 ^ 16" using g by (simp add: push_bit_eq_mult)
  have 3: "drop_bit 3 b < 2 ^ 16" using assms by (simp add: drop_bit_eq_div)
  have 4: "push_bit 8 (r AND 0xF8) OR push_bit 3 (g AND 0xFC) < 2 ^ 16"
    using assms 1 2 by (intro OR_upper) simp_all
  have 5: "(push_bit 8 (r AND 0xF8) OR push_bit 3 (g AND 0xFC)) OR drop_bit 3 b < 2 ^ 16"
    using assms 3 4 by (intro OR_upper) simp_all
  show ?thesis using assms 5 by (simp add: tft_color_def TFT_COLOR_def)
qed

lemma mask_F8: "(0xF8 :: int) = push_bit 3 (mask 5)"
  by (simp add: mask_eq_exp_minus_1 push_bit_eq_mult)

lemma mask_FC: "(0xFC :: int) = push_bit 2 (mask 6)"
  by (simp add: mask_eq_exp_minus_1 push_bit_eq_mult)

lemma bits_of_channel: "0 \<le> r \<Longrightarrow> r \<le> 255 \<Longrightarrow> bit (r::int) n \<Longrightarrow> n < 8"
proof -
  assume a: "0 \<le> r" "r \<le> 255" "bit r n"
  have "take_bit 8 r = r" using a by (intro take_bit_int_eq_self) simp_all
  then have "bit (take_bit 8 r) n" using a by simp
  then show "n < 8" by (simp add: bit_take_bit_iff)
qed

lemma and_F8: "0 \<le> r \<Longrightarrow> r \<le> 255 \<Longrightarrow> r AND 0xF8 = push_bit 3 (drop_bit 3 (r::int))"
  unfolding mask_F8
  by (rule bit_eqI) (auto simp add: bit_simps dest: bits_of_channel)

lemma Suc_Suc_minus_2: "2 \<le> n \<Longrightarrow> Suc (Suc (n - 2)) = n"
  by simp

lemma and_FC: "0 \<le> r \<Longrightarrow> r \<le> 255 \<Longrightarrow> r AND 0xFC = push_bit 2 (drop_bit 2 (r::int))"
  unfolding mask_FC
  by (rule bit_eqI) (auto simp add: bit_simps Suc_Suc_minus_2 dest: bits_of_channel)

lemma color_layout:
  assumes "0 \<le> r" "r \<le> 255" "0 \<le> g" "g \<le> 255" "0 \<le> b" "b \<le> 255"
  shows "tft_color r g b = (r div 8) * 2048 + (g div 4) * 32 + b div 8"
proof -
  have a: "tft_color r g b =
      (push_bit 11 (drop_bit 3 r) OR push_bit 5 (drop_bit 2 g)) OR drop_bit 3 b"
    using assms by (simp add: tft_color_def TFT_COLOR_def and_F8 and_FC)
  have b1: "push_bit 11 (drop_bit 3 r) OR push_bit 5 (drop_bit 2 g) =
      push_bit 11 (drop_bit 3 r) + push_bit 5 (drop_bit 2 g)"
    by (rule disjunctive_add [symmetric])
      (use assms in \<open>auto simp add: bit_simps dest: bits_of_channel\<close>)
  have b2: "(push_bit 11 (drop_bit 3 r) OR push_bit 5 (drop_bit 2 g)) OR drop_bit 3 b =
      (push_bit 11 (drop_bit 3 r) OR push_bit 5 (drop_bit 2 g)) + drop_bit 3 b"
    by (rule disjunctive_add [symmetric])
      (use assms in \<open>auto simp add: bit_simps dest: bits_of_channel\<close>)
  have "tft_color r g b =
      (push_bit 11 (drop_bit 3 r) OR push_bit 5 (drop_bit 2 g)) + drop_bit 3 b"
    using a b2 by simp
  also have "\<dots> = push_bit 11 (drop_bit 3 r) + push_bit 5 (drop_bit 2 g) + drop_bit 3 b"
    by (simp only: b1)
  finally show ?thesis by (simp add: push_bit_eq_mult drop_bit_eq_div)
qed

subsection \<open>Drawing primitives\<close>

text \<open>
  C1. The claim: an in-bounds \<open>pixel(x, y, color)\<close> programs exactly the single-pixel
  window \<open>(x, y, x, y)\<close> and streams one color. The code passes \<open>x + 1\<close> and \<open>y + 1\<close> as the
  end of the window: at the last pixel of the display, \<open>(127, 159)\<close>, the window
  programmed is \<open>(127, 159, 128, 160)\<close>, four pixels of which one lies on the panel, and
  not the window \<open>(127, 159, 127, 159)\<close> of the claim. One color is streamed.
\<close>

theorem pixel_window_ends_one_past:
  "pyb_tft_size doc_tft = (128, 160) \<and>
   pyb_tft_pixel doc_tft (127, 159) c =
     setwindowloc 127 159 128 160 @ writedata (color_bytes c) 2 \<and>
   pyb_tft_pixel doc_tft (127, 159) c \<noteq>
     setwindowloc 127 159 127 159 @ writedata (color_bytes c) 2"
  by (simp add: pyb_tft_size_def pyb_tft_pixel_def pixel_def doc_tft_simps to_byte_def
      setwindowloc_events)

text \<open>
  C2. The claim: \<open>hline\<close> and \<open>vline\<close> stream as many colors as the clamped window has
  pixels, fewer than the requested length when the line is clipped. The code passes the
  requested length to \<open>_draw\<close>: a horizontal line of length 20 from column 120 programs the
  window of the columns 120 to 128 of row 0, which has \<open>(128 - 120 + 1) * (0 - 0 + 1)\<close> pixels,
  and streams 20 colors.
\<close>

theorem hline_streams_requested_length:
  "pyb_tft_hline doc_tft (120, 0) 20 c = setwindowloc 120 0 128 0 @ draw 20 c \<and>
   pyb_tft_hline doc_tft (120, 0) 20 c \<noteq>
     setwindowloc 120 0 128 0 @ draw ((128 - 120 + 1) * (0 - 0 + 1)) c"
proof -
  have "draw 20 c \<noteq> draw 9 c" by (rule draw_neq) simp
  then show ?thesis
    by (simp add: pyb_tft_hline_def clamp_def doc_tft_simps to_byte_def)
qed

text \<open>
  C3. The claim: the Bresenham branch of \<open>line\<close> plots the end point too, so that
  \<open>line((0,0), (4,4), c)\<close> plots five pixels. The loop runs while the major coordinate
  differs from its end value and plots before it steps, so it returns after the pixel
  before the end point: four pixels are plotted, and \<open>(4, 4)\<close>, which is on the display,
  is not.
\<close>

theorem line_diagonal_omits_end_point:
  "pyb_tft_line doc_tft (0, 0) (4, 4) c =
     Some (pixel doc_tft 0 0 (color_bytes c) @ pixel doc_tft 1 1 (color_bytes c) @
           pixel doc_tft 2 2 (color_bytes c) @ pixel doc_tft 3 3 (color_bytes c)) \<and>
   pixel doc_tft 4 4 (color_bytes c) \<noteq> []"
  apply (simp add: pyb_tft_line_def)
  apply (simp add: line_loop_x.simps)
  apply (simp add: pixel_def doc_tft_simps setwindowloc_events)
  done

text \<open>
  C4. The claim: every coordinate that \<open>hline\<close>, \<open>vline\<close> and \<open>fill_rect\<close> pass to
  \<open>set_window\<close> lies in \<open>[0, width - 1] \<times> [0, height - 1]\<close>. The code clamps to the width and
  the height themselves: on the 128 by 160 display a rectangle of 200 by 200 pixels at the
  origin programs the window \<open>(0, 0, 128, 160)\<close> and streams 129 * 161 colors, and a
  horizontal line that starts at column 200 programs the window \<open>(128, 0, 128, 0)\<close>.
\<close>

theorem clamp_lets_width_and_height_through:
  "pyb_tft_size doc_tft = (128, 160) \<and>
   pyb_tft_fillrect doc_tft (0, 0) (200, 200) c = setwindowloc 0 0 128 160 @ draw (129 * 161) c \<and>
   pyb_tft_hline doc_tft (200, 0) 5 c = setwindowloc 128 0 128 0 @ draw 5 c \<and>
   pyb_tft_vline doc_tft (0, 0) 200 c = setwindowloc 0 0 0 160 @ draw 200 c"
  by (simp add: pyb_tft_size_def pyb_tft_fillrect_def pyb_tft_hline_def pyb_tft_vline_def
      clamp_def doc_tft_simps to_byte_def)

subsection \<open>Construction and rotation\<close>




text \<open>
  C6. For every display object, \<open>rotation(v)\<close> with a value \<open>v\<close> whose parity differs from
  that of the current rotation swaps width and height, and a second such call, with a
  value whose parity differs from that of the rotation then current, returns the size to
  its original value.
\<close>

theorem rotation_toggle_swaps_size:
  assumes "odd v \<noteq> odd (rotate self)"
    and "odd w \<noteq> odd (rotate (fst (pyb_tft_rotation self v)))"
  shows "pyb_tft_size (fst (pyb_tft_rotation self v)) = (size1 self, size0 self) \<and>
         pyb_tft_size (fst (pyb_tft_rotation (fst (pyb_tft_rotation self v)) w)) =
           pyb_tft_size self"
  using assms
  by (simp add: pyb_tft_rotation_def pyb_tft_size_def Let_def parity_bit even_nat_and3
      even_and_iff)

theorem rotation_toggle_swaps_size_witness:
  "odd (1 :: int) \<noteq> odd (rotate doc_tft) \<and>
   odd (6 :: int) \<noteq> odd (rotate (fst (pyb_tft_rotation doc_tft 1))) \<and>
   pyb_tft_size (fst (pyb_tft_rotation doc_tft 1)) = (160, 128) \<and>
   pyb_tft_size (fst (pyb_tft_rotation (fst (pyb_tft_rotation doc_tft 1)) 6)) = (128, 160)"
proof -
  have h1: "odd (1 :: int) \<noteq> odd (rotate doc_tft)"
    by (simp add: doc_tft_simps)
  have h2: "odd (6 :: int) \<noteq> odd (rotate (fst (pyb_tft_rotation doc_tft 1)))"
    by (simp add: pyb_tft_rotation_def Let_def doc_tft_simps)
  show ?thesis
    using h1 h2 rotation_toggle_swaps_size [OF h1 h2]
    by (simp add: pyb_tft_size_def doc_tft_simps)
qed

text \<open>
  C10. For every integer \<open>v\<close>, negative or greater than 3, the rotation that \<open>rotation(v)\<close>
  stores is \<open>v & 0x03\<close>, one of 0, 1, 2, 3; and after any sequence of method calls on a
  constructed display the rotation field is one of 0, 1, 2, 3, an index inside the table
  \<open>TFTRotations\<close> of four entries that \<open>_setMADCTL\<close> reads.
\<close>

theorem rotation_stays_in_table:
  assumes "pyb_tft_make_new pf tft_id dc rst = Inr t"
  shows "int (rotate (fst (pyb_tft_rotation self v))) = v AND 0x03 \<and>
         rotate (fst (pyb_tft_rotation self v)) \<in> {0, 1, 2, 3} \<and>
         rotate (calls t cs) \<in> {0, 1, 2, 3} \<and>
         rotate (calls t cs) < length TFTRotations \<and>
         length TFTRotations = 4"
proof -
  have 1: "int (rotate (fst (pyb_tft_rotation self v))) = v AND 0x03"
    by (simp add: pyb_tft_rotation_def Let_def)
  have "rotate (fst (pyb_tft_rotation self v)) < 4"
    using and3_less [of v] by (simp add: pyb_tft_rotation_def Let_def nat_less_iff)
  then have 2: "rotate (fst (pyb_tft_rotation self v)) \<in> {0, 1, 2, 3}" by auto
  have "rotate t < 4" using make_new_fields(3) [OF assms] by simp
  then have 3: "rotate (calls t cs) < 4" by (rule rotate_calls)
  then have 4: "rotate (calls t cs) \<in> {0, 1, 2, 3}" by auto
  show ?thesis using 1 2 3 4 by (simp add: TFTRotations_def)
qed

theorem rotation_stays_in_table_witness:
  "pyb_tft_make_new (Some \<circ> board_pin) ''X'' ''X1'' ''X2'' = Inr doc_tft \<and>
   int (rotate (fst (pyb_tft_rotation doc_tft (- 1)))) = 3 \<and>
   rotate (calls doc_tft [Call_rotation (- 1), Call_initr, Call_rgb False, Call_rotation 6, Call_fill])
     < length TFTRotations"
  using make_new_doc_tft
    rotation_stays_in_table [OF make_new_doc_tft, of doc_tft "- 1"
      "[Call_rotation (- 1), Call_initr, Call_rgb False, Call_rotation 6, Call_fill]"]
  by simp

subsection \<open>Initialization\<close>

text \<open>
  C7. \<open>initr\<close> leaves the display object as it was; the events it causes depend on the
  width, the height, the rotation and the color order of the object and on nothing else;
  so a second run causes the same events as the first, and the controller holds the same
  MADCTL, column-address and row-address parameters after two runs as after one.
\<close>

theorem initr_idempotent:
  "fst (pyb_tft_initr self) = self \<and>
   snd (pyb_tft_initr (self\<lparr>spi := a, pin_cs := b, pin_rst := c, pin_dc := e\<rparr>)) =
     snd (pyb_tft_initr self) \<and>
   snd (pyb_tft_initr (fst (pyb_tft_initr self))) = snd (pyb_tft_initr self) \<and>
   dev_regs (dev_run d (snd (pyb_tft_initr self) @ snd (pyb_tft_initr (fst (pyb_tft_initr self)))))
       ST_MADCTL =
     dev_regs (dev_run d (snd (pyb_tft_initr self))) ST_MADCTL \<and>
   dev_regs (dev_run d (snd (pyb_tft_initr self) @ snd (pyb_tft_initr (fst (pyb_tft_initr self)))))
       ST_CASET =
     dev_regs (dev_run d (snd (pyb_tft_initr self))) ST_CASET \<and>
   dev_regs (dev_run d (snd (pyb_tft_initr self) @ snd (pyb_tft_initr (fst (pyb_tft_initr self)))))
       ST_RASET =
     dev_regs (dev_run d (snd (pyb_tft_initr self))) ST_RASET"
proof -
  have "snd (pyb_tft_initr (self\<lparr>spi := a, pin_cs := b, pin_rst := c, pin_dc := e\<rparr>)) =
     snd (pyb_tft_initr self)"
    by (simp add: pyb_tft_initr_def Let_def setMADCTL_def)
  then show ?thesis
    by (simp add: initr_fst dev_run_append initr_device)
qed

subsection \<open>Text\<close>

text \<open>
  C8. Let \<open>ch\<close> be a character whose code lies outside \<open>[font.start, font.end]\<close> of the
  font in effect, and \<open>sx\<close>, \<open>sy\<close> the scale in effect. \<open>_drawchar\<close> causes no event for
  \<open>ch\<close>, wherever it is called; a text of one character \<open>ch'\<close> is the events of
  \<open>_drawchar\<close> for it, so for \<open>ch\<close> it is empty, and appending \<open>ch\<close> to a text adds
  nothing. In the middle of a text, \<open>ch\<close> is followed by the same events as any other
  character \<open>ch'\<close> in its place: the two texts differ by the glyph of \<open>ch'\<close> only. Where
  the line does not wrap, the characters that follow are drawn as a text that starts
  \<open>font.width * sx\<close> to the right of the place of \<open>ch\<close>, which is where they are
  drawn after \<open>ch'\<close>.
\<close>

theorem text_skips_char_outside_font:
  assumes font: "font = (case font_arg of Some f \<Rightarrow> f | None \<Rightarrow> default_font)"
    and sx: "sx = (case size_arg of Some s \<Rightarrow> to_uint (fst s) | None \<Rightarrow> 1)"
    and sy: "sy = (case size_arg of Some s \<Rightarrow> to_uint (snd s) | None \<Rightarrow> 1)"
    and range: "unat ch < font_start font \<or> font_end font < unat ch"
  shows "drawchar self px py (unat ch) colorA font (to_int sx) (to_int sy) = [] \<and>
    pyb_tft_text default_font self pos [ch'] color font_arg size_arg =
      drawchar self (fst pos) (snd pos) (unat ch') (color_bytes color) font
        (to_int sx) (to_int sy) \<and>
    pyb_tft_text default_font self pos (pre @ [ch]) color font_arg size_arg =
      pyb_tft_text default_font self pos pre color font_arg size_arg \<and>
    pyb_tft_text default_font self pos (pre @ ch # rest) color font_arg size_arg =
      pyb_tft_text default_font self pos pre color font_arg size_arg @
      drop (length (pyb_tft_text default_font self pos pre color font_arg size_arg))
        (pyb_tft_text default_font self pos (pre @ ch # rest) color font_arg size_arg) \<and>
    pyb_tft_text default_font self pos (pre @ ch' # rest) color font_arg size_arg =
      pyb_tft_text default_font self pos (pre @ [ch']) color font_arg size_arg @
      drop (length (pyb_tft_text default_font self pos pre color font_arg size_arg))
        (pyb_tft_text default_font self pos (pre @ ch # rest) color font_arg size_arg) \<and>
    (0 \<le> x \<and>
     x + int ((length pre + 1 + length rest) * (font_width font * sx)) \<le> size0 self \<and>
     size0 self < 2 ^ 31 \<longrightarrow>
       pyb_tft_text default_font self (x, y) (pre @ ch # rest) color font_arg size_arg =
         pyb_tft_text default_font self (x, y) pre color font_arg size_arg @
         pyb_tft_text default_font self (x + int ((length pre + 1) * (font_width font * sx)), y)
           rest color font_arg size_arg \<and>
       pyb_tft_text default_font self (x, y) (pre @ ch' # rest) color font_arg size_arg =
         pyb_tft_text default_font self (x, y) pre color font_arg size_arg @
         drawchar self (x + int (length pre * (font_width font * sx))) y (unat ch')
           (color_bytes color) font (to_int sx) (to_int sy) @
         pyb_tft_text default_font self (x + int ((length pre + 1) * (font_width font * sx)), y)
           rest color font_arg size_arg)"
  (is "?A \<and> ?B \<and> ?C \<and> ?D \<and> ?E \<and> (?H \<longrightarrow> ?F \<and> ?G)")
proof -
  note t = pyb_tft_text_loop [OF font sx sy]
  have A: ?A using range by (rule drawchar_outside)
  have B: ?B unfolding t by (rule text_loop_single)
  have C: ?C unfolding t using range by (rule text_loop_snoc_outside)
  have D: ?D unfolding t by (rule text_loop_rest)
  have E: ?E unfolding t using range by (rule text_loop_replace)
  have FG: "?F \<and> ?G" if h: ?H
  proof -
    have G: ?G using font sx sy h by (intro pyb_tft_text_nowrap) auto
    have "pyb_tft_text default_font self (x, y) (pre @ ch # rest) color font_arg size_arg =
         pyb_tft_text default_font self (x, y) pre color font_arg size_arg @
         drawchar self (x + int (length pre * (font_width font * sx))) y (unat ch)
           (color_bytes color) font (to_int sx) (to_int sy) @
         pyb_tft_text default_font self (x + int ((length pre + 1) * (font_width font * sx)), y)
           rest color font_arg size_arg"
      using font sx sy h by (intro pyb_tft_text_nowrap) auto
    then have F: ?F using range by (simp only: drawchar_outside append_Nil)
    show ?thesis using F G by blast
  qed
  show ?thesis using A B C D E FG by blast
qed

theorem text_skips_char_outside_font_witness:
  "DefaultFont of_nat = (case None of Some f \<Rightarrow> f | None \<Rightarrow> DefaultFont of_nat) \<and>
   (2 :: nat) = (case Some (2 :: int, 3 :: int) of Some s \<Rightarrow> to_uint (fst s) | None \<Rightarrow> 1) \<and>
   (3 :: nat) = (case Some (2 :: int, 3 :: int) of Some s \<Rightarrow> to_uint (snd s) | None \<Rightarrow> 1) \<and>
   (unat (10 :: byte) < font_start (DefaultFont of_nat) \<or>
      font_end (DefaultFont of_nat) < unat (10 :: byte)) \<and>
   (0 :: int) \<le> 4 \<and>
   4 + int ((length [65 :: byte] + 1 + length [66 :: byte]) * (font_width (DefaultFont of_nat) * 2))
     \<le> size0 doc_tft \<and>
   size0 doc_tft < 2 ^ 31 \<and>
   drawchar doc_tft 20 0 (unat (10 :: byte)) (color_bytes 0xFFFF) (DefaultFont of_nat)
     (to_int 2) (to_int 3) = [] \<and>
   pyb_tft_text (DefaultFont of_nat) doc_tft (4, 0) [65, 10, 66] 0xFFFF None (Some (2, 3)) =
     pyb_tft_text (DefaultFont of_nat) doc_tft (4, 0) [65] 0xFFFF None (Some (2, 3)) @
     pyb_tft_text (DefaultFont of_nat) doc_tft (36, 0) [66] 0xFFFF None (Some (2, 3)) \<and>
   pyb_tft_text (DefaultFont of_nat) doc_tft (4, 0) [65, 67, 66] 0xFFFF None (Some (2, 3)) =
     pyb_tft_text (DefaultFont of_nat) doc_tft (4, 0) [65] 0xFFFF None (Some (2, 3)) @
     drawchar doc_tft 20 0 (unat (67 :: byte)) (color_bytes 0xFFFF) (DefaultFont of_nat)
       (to_int 2) (to_int 3) @
     pyb_tft_text (DefaultFont of_nat) doc_tft (36, 0) [66] 0xFFFF None (Some (2, 3))"
proof -
  have f: "DefaultFont of_nat = (case None of Some f \<Rightarrow> f | None \<Rightarrow> DefaultFont of_nat)"
    by simp
  have sx: "(2 :: nat) = (case Some (2 :: int, 3 :: int) of Some s \<Rightarrow> to_uint (fst s) | None \<Rightarrow> 1)"
    by (simp add: to_uint_def)
  have sy: "(3 :: nat) = (case Some (2 :: int, 3 :: int) of Some s \<Rightarrow> to_uint (snd s) | None \<Rightarrow> 1)"
    by (simp add: to_uint_def)
  have r: "unat (10 :: byte) < font_start (DefaultFont of_nat) \<or>
      font_end (DefaultFont of_nat) < unat (10 :: byte)"
    by (simp add: DefaultFont_def)
  have w: "font_width (DefaultFont of_nat) = 8" by (simp add: DefaultFont_def)
  have n: "(0 :: int) \<le> 4 \<and>
     4 + int ((length [65 :: byte] + 1 + length [66 :: byte]) * (font_width (DefaultFont of_nat) * 2))
       \<le> size0 doc_tft \<and>
     size0 doc_tft < 2 ^ 31"
    by (simp add: w doc_tft_simps)
  note T = text_skips_char_outside_font [OF f sx sy r, where self = doc_tft and px = 20 and py = 0
        and colorA = "color_bytes 0xFFFF" and color = "0xFFFF" and x = 4 and y = 0
        and pre = "[65]" and rest = "[66]" and ch' = 67 and pos = "(4, 0)"]
  have A: "drawchar doc_tft 20 0 (unat (10 :: byte)) (color_bytes 0xFFFF) (DefaultFont of_nat)
     (to_int 2) (to_int 3) = []"
    using T [THEN conjunct1] .
  have FG: "pyb_tft_text (DefaultFont of_nat) doc_tft (4, 0) [65, 10, 66] 0xFFFF None (Some (2, 3)) =
     pyb_tft_text (DefaultFont of_nat) doc_tft (4, 0) [65] 0xFFFF None (Some (2, 3)) @
     pyb_tft_text (DefaultFont of_nat) doc_tft (36, 0) [66] 0xFFFF None (Some (2, 3)) \<and>
   pyb_tft_text (DefaultFont of_nat) doc_tft (4, 0) [65, 67, 66] 0xFFFF None (Some (2, 3)) =
     pyb_tft_text (DefaultFont of_nat) doc_tft (4, 0) [65] 0xFFFF None (Some (2, 3)) @
     drawchar doc_tft 20 0 (unat (67 :: byte)) (color_bytes 0xFFFF) (DefaultFont of_nat)
       (to_int 2) (to_int 3) @
     pyb_tft_text (DefaultFont of_nat) doc_tft (36, 0) [66] 0xFFFF None (Some (2, 3))"
    using T [THEN conjunct2, THEN conjunct2, THEN conjunct2, THEN conjunct2, THEN conjunct2,
        THEN mp, OF n]
    by (simp add: w)
  show ?thesis using f sx sy r n A FG by blast
qed

subsection \<open>Colors\<close>

text \<open>
  C9. For all \<open>r\<close>, \<open>g\<close>, \<open>b\<close> from 0 to 255, \<open>color(r, g, b)\<close> returns
  \<open>((r & 0xF8) << 8) | ((g & 0xFC) << 3) | (b >> 3)\<close>; the value fits 16 bits and its top
  five bits, the bits from 11 on, are \<open>r >> 3\<close>. The three fields do not overlap: the value
  is \<open>(r >> 3) * 2048 + (g >> 2) * 32 + (b >> 3)\<close>.
\<close>

theorem tft_color_rgb565:
  assumes "0 \<le> r" "r \<le> 255" "0 \<le> g" "g \<le> 255" "0 \<le> b" "b \<le> 255"
  shows "tft_color r g b = (push_bit 8 (r AND 0xF8) OR push_bit 3 (g AND 0xFC)) OR drop_bit 3 b \<and>
         0 \<le> tft_color r g b \<and> tft_color r g b < 2 ^ 16 \<and>
         drop_bit 11 (tft_color r g b) = drop_bit 3 r \<and>
         tft_color r g b = (r div 8) * 2048 + (g div 4) * 32 + b div 8"
proof -
  have 1: "tft_color r g b =
      (push_bit 8 (r AND 0xF8) OR push_bit 3 (g AND 0xFC)) OR drop_bit 3 b"
    by (simp add: tft_color_def TFT_COLOR_def)
  have 2: "drop_bit 11 (tft_color r g b) = drop_bit 3 r"
    using assms
    by (simp add: tft_color_def TFT_COLOR_def drop_bit_push_bit low5 hi0)
  show ?thesis
    using 1 2 color_bound [OF assms] color_layout [OF assms] by blast
qed

theorem tft_color_rgb565_witness:
  "(0 :: int) \<le> 200 \<and> (200 :: int) \<le> 255 \<and> (0 :: int) \<le> 100 \<and> (100 :: int) \<le> 255 \<and>
   (0 :: int) \<le> 50 \<and> (50 :: int) \<le> 255 \<and>
   tft_color 200 100 50 = 52006 \<and> drop_bit 11 (tft_color 200 100 50) = 25"
  using tft_color_rgb565 [of 200 100 50] by (simp add: drop_bit_eq_div)


end
